theory Spec2Isabelle
  imports Main
begin

section \<open>The Python values and exceptions that FieldElement.py touches\<close>

text \<open>
  The class stores two attributes, \<open>num\<close> and \<open>order\<close>. The specification restricts both
  to integers, so they are Python's unbounded integers here.
\<close>

record FieldElement =
  num :: int
  order :: int

text \<open>
  The objects a caller can hand to \<open>__eq__\<close> as \<open>other\<close>: \<open>None\<close>, values of the built-in
  types \<open>bool\<close>, \<open>int\<close> and \<open>str\<close>, and instances of the class itself.
\<close>

datatype py_value =
  PyNone
| PyBool bool
| PyInt int
| PyStr string
| PyInstance FieldElement

text \<open>
  Exceptions as values. \<open>ValueError\<close> carries the message the source builds; \<open>AttributeError\<close>
  carries the attribute that was looked up and \<open>TypeError\<close> the operator that found no method
  (the interpreter's own message texts are not modelled). \<open>IndexError\<close> is what \<open>str.format\<close>
  raises when a replacement field has no argument left.
\<close>

datatype py_error =
  ValueError string
| AttributeError string
| TypeError string
| IndexError

section \<open>Rendering: \<open>str\<close> of an integer and \<open>str.format\<close>\<close>

definition digit_char :: "nat \<Rightarrow> char" where
  "digit_char d = char_of (48 + d)"

fun str_nat :: "nat \<Rightarrow> string" where
  "str_nat n = (if n < 10 then [digit_char n] else str_nat (n div 10) @ [digit_char (n mod 10)])"

declare str_nat.simps [simp del]

text \<open>\<open>str(i)\<close> for a Python integer: decimal digits, a leading minus sign when negative.\<close>

definition str_int :: "int \<Rightarrow> string" where
  "str_int i = (if i < 0 then CHR ''-'' # str_nat (nat (- i)) else str_nat (nat i))"

text \<open>
  Reading a decimal numeral back; used only to state that \<open>str_int\<close> is the decimal rendering.
\<close>

definition digit_val :: "char \<Rightarrow> nat" where
  "digit_val c = of_char c - 48"

definition nat_of_decimal :: "string \<Rightarrow> nat" where
  "nat_of_decimal s = foldl (\<lambda>acc c. 10 * acc + digit_val c) 0 s"

fun int_of_decimal :: "string \<Rightarrow> int" where
  "int_of_decimal [] = 0"
| "int_of_decimal (c # cs) =
     (if c = CHR ''-'' then - int (nat_of_decimal cs) else int (nat_of_decimal (c # cs)))"

text \<open>
  A format string of the source, split into its literal text and its \<open>{}\<close> replacement
  fields: \<open>'FieldElement_{}({})'\<close> is
  \<open>[Lit ''FieldElement_'', Field, Lit ''('', Field, Lit '')'']\<close>.
  The arguments arrive already converted by \<open>str\<close>; the k-th field takes the k-th argument.
\<close>

datatype segment = Lit string | Field

fun py_format :: "segment list \<Rightarrow> string list \<Rightarrow> py_error + string" where
  "py_format [] args = Inr []"
| "py_format (Lit s # segs) args =
     (case py_format segs args of Inl err \<Rightarrow> Inl err | Inr rest \<Rightarrow> Inr (s @ rest))"
| "py_format (Field # segs) [] = Inl IndexError"
| "py_format (Field # segs) (a # args) =
     (case py_format segs args of Inl err \<Rightarrow> Inl err | Inr rest \<Rightarrow> Inr (a @ rest))"

section \<open>class FieldElement\<close>

text \<open>
  \<^verbatim>\<open>
  def __init__(self, num, order):
      if num >= order or num < 0:
          error = 'Num {} not in field range 0 to {}'.format(num, order - 1)
          raise ValueError(error)
      self.num = num
      self.order = order
  \<close>
\<close>

definition FieldElement_init :: "int \<Rightarrow> int \<Rightarrow> py_error + FieldElement" where
  "FieldElement_init num_arg order_arg =
     (if num_arg \<ge> order_arg \<or> num_arg < 0 then
        (case py_format [Lit ''Num '', Field, Lit '' not in field range 0 to '', Field]
                [str_int num_arg, str_int (order_arg - 1)] of
           Inl err \<Rightarrow> Inl err
         | Inr error \<Rightarrow> Inl (ValueError error))
      else Inr \<lparr>num = num_arg, order = order_arg\<rparr>)"

text \<open>
  \<^verbatim>\<open>
  def __repr__(self):
      return 'FieldElement_{}({})'.format(self.order, self.num)
  \<close>
\<close>

definition FieldElement_repr :: "FieldElement \<Rightarrow> py_error + string" where
  "FieldElement_repr self =
     py_format [Lit ''FieldElement_'', Field, Lit ''('', Field, Lit '')'']
       [str_int (order self), str_int (num self)]"

text \<open>
  Reading \<open>other.num\<close> and \<open>other.order\<close>: only instances of the class carry these
  attributes; \<open>None\<close>, \<open>bool\<close>, \<open>int\<close> and \<open>str\<close> objects raise \<open>AttributeError\<close>.
\<close>

fun attr_num :: "py_value \<Rightarrow> py_error + int" where
  "attr_num (PyInstance e) = Inr (num e)"
| "attr_num v = Inl (AttributeError ''num'')"

fun attr_order :: "py_value \<Rightarrow> py_error + int" where
  "attr_order (PyInstance e) = Inr (order e)"
| "attr_order v = Inl (AttributeError ''order'')"

text \<open>
  \<^verbatim>\<open>
  def __eq__(self, other):
      if other is None:
          return False
      return self.num == other.num and self.order == other.order
  \<close>
  The conjunction is evaluated left to right and stops at the first false operand.
\<close>

definition FieldElement_eq :: "FieldElement \<Rightarrow> py_value \<Rightarrow> py_error + bool" where
  "FieldElement_eq self other =
     (if other = PyNone then Inr False
      else case attr_num other of
             Inl err \<Rightarrow> Inl err
           | Inr n \<Rightarrow>
               if num self = n then
                 (case attr_order other of Inl err \<Rightarrow> Inl err | Inr p \<Rightarrow> Inr (order self = p))
               else Inr False)"


section \<open>Operators the class does not define\<close>

text \<open>
  The class body binds exactly three names. A binary operator \<open>a + b\<close>, \<open>a * b\<close>, \<open>a ** b\<close>,
  \<open>a == b\<close> with \<open>a\<close> an instance looks its special method up in the class; the base class
  \<open>object\<close> supplies none for the arithmetic operators, and the reflected methods of
  \<open>None\<close>, \<open>bool\<close>, \<open>int\<close> and \<open>str\<close> decline an instance operand, so a missing method
  ends in \<open>TypeError\<close>.
\<close>

datatype special_method = M_init | M_repr | M_eq

definition FieldElement_dict :: "(string \<times> special_method) list" where
  "FieldElement_dict = [(''__init__'', M_init), (''__repr__'', M_repr), (''__eq__'', M_eq)]"

datatype binop = Add | Sub | Mul | TrueDiv | Pow | Eq

fun dunder :: "binop \<Rightarrow> string" where
  "dunder Add = ''__add__''"
| "dunder Sub = ''__sub__''"
| "dunder Mul = ''__mul__''"
| "dunder TrueDiv = ''__truediv__''"
| "dunder Pow = ''__pow__''"
| "dunder Eq = ''__eq__''"

text \<open>
  Calling a method of the class with the two operands \<open>(self, other)\<close>: \<open>__eq__\<close> takes
  them; \<open>__init__\<close> lacks its third argument and \<open>__repr__\<close> gets one too many.
\<close>

fun invoke_binary :: "special_method \<Rightarrow> FieldElement \<Rightarrow> py_value \<Rightarrow> py_error + py_value" where
  "invoke_binary M_eq self other =
     (case FieldElement_eq self other of Inl err \<Rightarrow> Inl err | Inr b \<Rightarrow> Inr (PyBool b))"
| "invoke_binary M_init self other = Inl (TypeError ''__init__'')"
| "invoke_binary M_repr self other = Inl (TypeError ''__repr__'')"

definition binary_op :: "binop \<Rightarrow> FieldElement \<Rightarrow> py_value \<Rightarrow> py_error + py_value" where
  "binary_op bop self other =
     (case map_of FieldElement_dict (dunder bop) of
        None \<Rightarrow> Inl (TypeError (dunder bop))
      | Some m \<Rightarrow> invoke_binary m self other)"

section \<open>Everything a caller can do with the class\<close>

datatype operation =
  Construct int int
| Repr FieldElement
| Binary binop FieldElement py_value

fun perform :: "operation \<Rightarrow> py_error + py_value" where
  "perform (Construct n p) =
     (case FieldElement_init n p of Inl err \<Rightarrow> Inl err | Inr e \<Rightarrow> Inr (PyInstance e))"
| "perform (Repr e) =
     (case FieldElement_repr e of Inl err \<Rightarrow> Inl err | Inr s \<Rightarrow> Inr (PyStr s))"
| "perform (Binary bop e v) = binary_op bop e v"

fun operands :: "operation \<Rightarrow> FieldElement list" where
  "operands (Construct n p) = []"
| "operands (Repr e) = [e]"
| "operands (Binary bop e (PyInstance e')) = [e, e']"
| "operands (Binary bop e v) = [e]"

text \<open>
  The instances that exist: those an operation returns when it is applied to instances
  that exist already.
\<close>

inductive exists_instance :: "FieldElement \<Rightarrow> bool" where
  produced: "\<forall>x \<in> set (operands op). exists_instance x \<Longrightarrow> perform op = Inr (PyInstance e)
     \<Longrightarrow> exists_instance e"

section \<open>Facts about the model shared by the claims\<close>

lemma init_error:
  "num_arg \<ge> order_arg \<or> num_arg < 0 \<Longrightarrow>
   FieldElement_init num_arg order_arg =
     Inl (ValueError (''Num '' @ str_int num_arg @ '' not in field range 0 to ''
                       @ str_int (order_arg - 1)))"
  by (simp add: FieldElement_init_def)

lemma init_ok:
  "0 \<le> num_arg \<Longrightarrow> num_arg < order_arg \<Longrightarrow>
   FieldElement_init num_arg order_arg = Inr \<lparr>num = num_arg, order = order_arg\<rparr>"
  by (simp add: FieldElement_init_def)

lemma init_Inr_iff:
  "FieldElement_init n p = Inr e \<longleftrightarrow> 0 \<le> n \<and> n < p \<and> e = \<lparr>num = n, order = p\<rparr>"
  by (auto simp: FieldElement_init_def)

lemma repr_value:
  "FieldElement_repr e =
     Inr (''FieldElement_'' @ str_int (order e) @ ''('' @ str_int (num e) @ '')'')"
  by (simp add: FieldElement_repr_def)

lemma eq_instance:
  "FieldElement_eq a (PyInstance b) = Inr (num a = num b \<and> order a = order b)"
  by (simp add: FieldElement_eq_def)

lemma binary_op_Eq: "binary_op Eq a v =
   (case FieldElement_eq a v of Inl err \<Rightarrow> Inl err | Inr b \<Rightarrow> Inr (PyBool b))"
  by (simp add: binary_op_def FieldElement_dict_def)

lemma binary_op_arith:
  "bop \<noteq> Eq \<Longrightarrow> binary_op bop a v = Inl (TypeError (dunder bop))"
  by (cases bop) (simp_all add: binary_op_def FieldElement_dict_def)

lemma binary_op_no_instance: "binary_op bop a v \<noteq> Inr (PyInstance e)"
proof (cases "bop = Eq")
  case True
  then show ?thesis by (simp add: binary_op_Eq split: sum.splits)
next
  case False
  then show ?thesis by (simp add: binary_op_arith)
qed

lemma perform_instance:
  "perform op = Inr (PyInstance e) \<Longrightarrow> \<exists>n p. op = Construct n p \<and> FieldElement_init n p = Inr e"
proof (cases op)
  case (Construct n p)
  assume "perform op = Inr (PyInstance e)"
  with Construct show ?thesis by (simp split: sum.splits)
next
  case (Repr x)
  assume "perform op = Inr (PyInstance e)"
  with Repr show ?thesis by (simp split: sum.splits)
next
  case (Binary bop x v)
  assume "perform op = Inr (PyInstance e)"
  with Binary show ?thesis by (simp add: binary_op_no_instance)
qed

lemma exists_instance_range: "exists_instance e \<Longrightarrow> 0 \<le> num e \<and> num e < order e"
proof (induction rule: exists_instance.induct)
  case (produced op e)
  from \<open>perform op = Inr (PyInstance e)\<close> obtain n p where "FieldElement_init n p = Inr e"
    using perform_instance by blast
  then show ?case by (auto simp: init_Inr_iff)
qed

lemma exists_instance_constructed:
  "0 \<le> n \<Longrightarrow> n < p \<Longrightarrow> exists_instance \<lparr>num = n, order = p\<rparr>"
  using exists_instance.produced [of "Construct n p" "\<lparr>num = n, order = p\<rparr>"]
  by (simp add: init_ok)

subsection \<open>\<open>str_int\<close> writes decimal numerals\<close>

lemma digit_val_digit_char: "d < 10 \<Longrightarrow> digit_val (digit_char d) = d"
  by (simp add: digit_val_def digit_char_def)

lemma nat_of_decimal_snoc:
  "nat_of_decimal (s @ [c]) = 10 * nat_of_decimal s + digit_val c"
  by (simp add: nat_of_decimal_def)

lemma nat_of_decimal_str_nat: "nat_of_decimal (str_nat n) = n"
proof (induction n rule: str_nat.induct)
  case (1 n)
  show ?case
  proof (cases "n < 10")
    case True
    then show ?thesis
      by (simp add: str_nat.simps [of n] nat_of_decimal_def digit_val_digit_char)
  next
    case False
    with "1" have "nat_of_decimal (str_nat (n div 10)) = n div 10" by simp
    with False show ?thesis
      by (simp add: str_nat.simps [of n] nat_of_decimal_snoc digit_val_digit_char)
  qed
qed

lemma digit_char_not_minus: "d < 10 \<Longrightarrow> digit_char d \<noteq> CHR ''-''"
proof
  assume d: "d < 10" and "digit_char d = CHR ''-''"
  then have "(of_char (digit_char d) :: nat) = of_char CHR ''-''" by simp
  with d show False by (simp add: digit_char_def)
qed

lemma str_nat_head: "\<exists>c cs. str_nat n = c # cs \<and> c \<noteq> CHR ''-''"
proof (induction n rule: str_nat.induct)
  case (1 n)
  show ?case
  proof (cases "n < 10")
    case True
    then show ?thesis by (simp add: str_nat.simps [of n] digit_char_not_minus)
  next
    case False
    with "1" obtain c cs where "str_nat (n div 10) = c # cs" "c \<noteq> CHR ''-''" by blast
    with False show ?thesis by (simp add: str_nat.simps [of n])
  qed
qed

lemma int_of_decimal_str_int: "int_of_decimal (str_int i) = i"
proof (cases "i < 0")
  case True
  then show ?thesis by (simp add: str_int_def nat_of_decimal_str_nat)
next
  case False
  obtain c cs where s: "str_nat (nat i) = c # cs" "c \<noteq> CHR ''-''"
    using str_nat_head by blast
  have "nat_of_decimal (c # cs) = nat i"
    using nat_of_decimal_str_nat [of "nat i"] s by simp
  with False s show ?thesis by (simp add: str_int_def)
qed

section \<open>Construction\<close>

text \<open>
  Claim C1. Every instance that exists satisfies \<open>0 \<le> num < order\<close>: the constructor rejects
  every pair \<open>(n, p)\<close> outside that range with \<open>ValueError\<close>, and whatever instance an
  operation of the class returns (only construction returns one; \<open>__repr__\<close> returns a
  string, \<open>==\<close> a boolean, and the arithmetic operators raise) lies within it.
\<close>

theorem C1_range_invariant:
  "(\<not> (0 \<le> n \<and> n < p) \<longrightarrow> (\<exists>msg. FieldElement_init n p = Inl (ValueError msg)))
   \<and> (exists_instance e \<longrightarrow> 0 \<le> num e \<and> num e < order e)"
proof (intro conjI impI)
  assume "\<not> (0 \<le> n \<and> n < p)"
  then have "n \<ge> p \<or> n < 0" by arith
  then show "\<exists>msg. FieldElement_init n p = Inl (ValueError msg)"
    by (simp add: init_error)
next
  assume "exists_instance e"
  then show "0 \<le> num e" by (simp add: exists_instance_range)
next
  assume "exists_instance e"
  then show "num e < order e" by (simp add: exists_instance_range)
qed

text \<open>At \<open>(13, 13)\<close> the constructor rejects; \<open>FieldElement(7, 13)\<close> exists and is in range.\<close>

theorem C1_range_invariant_witness:
  "\<not> (0 \<le> (13::int) \<and> (13::int) < 13)
   \<and> (\<exists>msg. FieldElement_init 13 13 = Inl (ValueError msg))
   \<and> exists_instance \<lparr>num = 7, order = 13\<rparr>
   \<and> 0 \<le> num \<lparr>num = 7, order = 13\<rparr>
   \<and> num \<lparr>num = 7, order = 13\<rparr> < order \<lparr>num = 7, order = 13\<rparr>"
proof -
  have ex: "exists_instance \<lparr>num = 7, order = 13\<rparr>"
    by (rule exists_instance_constructed) simp_all
  show ?thesis
    using C1_range_invariant [of 13 13 "\<lparr>num = 7, order = 13\<rparr>"] ex by simp
qed

text \<open>
  Claim C2. For a positive order \<open>p\<close> and a value \<open>v\<close> with \<open>v < 0\<close> or \<open>v \<ge> p\<close>,
  \<open>FieldElement(v, p)\<close> raises the range error and yields no instance. The range error of the
  specification (\<open>OutOfRangeError\<close>) is the source's \<open>ValueError\<close> with the message
  \<open>Num v not in field range 0 to p - 1\<close>.
\<close>

theorem C2_out_of_range_rejected:
  "0 < p \<Longrightarrow> v < 0 \<or> v \<ge> p \<Longrightarrow>
   FieldElement_init v p =
     Inl (ValueError (''Num '' @ str_int v @ '' not in field range 0 to '' @ str_int (p - 1)))
   \<and> (\<forall>e. perform (Construct v p) \<noteq> Inr (PyInstance e))"
proof -
  assume "0 < p" and "v < 0 \<or> v \<ge> p"
  then have "v \<ge> p \<or> v < 0" by blast
  then show ?thesis by (simp add: init_error)
qed

text \<open>\<open>FieldElement(13, 13)\<close> and \<open>FieldElement(-1, 13)\<close> are both rejected, with the message shown.\<close>

theorem C2_out_of_range_rejected_witness:
  "(0::int) < 13 \<and> ((13::int) < 0 \<or> (13::int) \<ge> 13)
   \<and> FieldElement_init 13 13 = Inl (ValueError ''Num 13 not in field range 0 to 12'')
   \<and> (0::int) < 13 \<and> ((-1::int) < 0 \<or> (-1::int) \<ge> 13)
   \<and> FieldElement_init (-1) 13 = Inl (ValueError ''Num -1 not in field range 0 to 12'')"
proof -
  have a: "str_int 13 = ''13''" "str_int 12 = ''12''" "str_int (-1) = ''-1''"
    by code_simp+
  show ?thesis
    using C2_out_of_range_rejected [of 13 13] C2_out_of_range_rejected [of 13 "-1"]
    by (simp add: a)
qed

text \<open>
  Claim C3. For \<open>0 \<le> v < p\<close> construction succeeds, and the element stores \<open>v\<close> as its
  value and \<open>p\<close> as its order.
\<close>

theorem C3_construction_succeeds:
  "0 \<le> v \<Longrightarrow> v < p \<Longrightarrow>
   \<exists>e. FieldElement_init v p = Inr e \<and> num e = v \<and> order e = p"
  by (simp add: init_ok)

text \<open>\<open>FieldElement(7, 13)\<close> is constructed.\<close>

theorem C3_construction_succeeds_witness:
  "(0::int) \<le> 7 \<and> (7::int) < 13
   \<and> (\<exists>e. FieldElement_init 7 13 = Inr e \<and> num e = 7 \<and> order e = 13)"
  using C3_construction_succeeds [of 7 13] by simp

section \<open>Equality\<close>

text \<open>
  Claim C4. For two field elements \<open>a\<close> and \<open>b\<close>, \<open>__eq__\<close> (and so the operator \<open>==\<close>)
  returns true exactly when both the values and the orders agree, and never raises; in
  particular \<open>FieldElement(7, 13) == FieldElement(6, 13)\<close> is false.
\<close>

theorem C4_equals_iff:
  "FieldElement_eq a (PyInstance b) = Inr (num a = num b \<and> order a = order b)
   \<and> binary_op Eq a (PyInstance b) = Inr (PyBool (num a = num b \<and> order a = order b))
   \<and> FieldElement_init 7 13 = Inr \<lparr>num = 7, order = 13\<rparr>
   \<and> FieldElement_init 6 13 = Inr \<lparr>num = 6, order = 13\<rparr>
   \<and> FieldElement_eq \<lparr>num = 7, order = 13\<rparr> (PyInstance \<lparr>num = 6, order = 13\<rparr>) = Inr False"
  by (simp add: eq_instance binary_op_Eq init_ok)

text \<open>Equal values and orders give true; equal values with different orders give false.\<close>

theorem C4_equals_iff_witness:
  "FieldElement_eq \<lparr>num = 7, order = 13\<rparr> (PyInstance \<lparr>num = 7, order = 13\<rparr>) = Inr True
   \<and> FieldElement_eq \<lparr>num = 7, order = 13\<rparr> (PyInstance \<lparr>num = 7, order = 11\<rparr>) = Inr False"
  using C4_equals_iff [of "\<lparr>num = 7, order = 13\<rparr>" "\<lparr>num = 7, order = 13\<rparr>"]
    C4_equals_iff [of "\<lparr>num = 7, order = 13\<rparr>" "\<lparr>num = 7, order = 11\<rparr>"]
  by simp

text \<open>
  Claim C5 says that comparing with anything that is not a field element, an absent value
  or a value of another type, returns false without an error. Against an \<open>int\<close> the method
  reads \<open>other.num\<close>, which raises \<open>AttributeError\<close>: \<open>FieldElement(7, 13) == 5\<close> does not
  return false.
\<close>

theorem C5_foreign_type_counterexample:
  "FieldElement_init 7 13 = Inr \<lparr>num = 7, order = 13\<rparr>
   \<and> FieldElement_eq \<lparr>num = 7, order = 13\<rparr> (PyInt 5) = Inl (AttributeError ''num'')
   \<and> FieldElement_eq \<lparr>num = 7, order = 13\<rparr> (PyInt 5) \<noteq> Inr False"
  by (simp add: init_ok FieldElement_eq_def)

text \<open>
  Claim C5, amended. For every field element \<open>a\<close>, comparing with the absent value \<open>None\<close>
  returns false and raises nothing.
\<close>

theorem C5_equals_None:
  "FieldElement_eq a PyNone = Inr False \<and> binary_op Eq a PyNone = Inr (PyBool False)"
  by (simp add: binary_op_Eq) (simp add: FieldElement_eq_def)

section \<open>Arithmetic\<close>

text \<open>
  Claim C6 says that \<open>add\<close> returns the sum modulo the order, so that
  \<open>FieldElement(7, 13) + FieldElement(6, 13)\<close> equals \<open>FieldElement(0, 13)\<close>. The class has no
  \<open>__add__\<close>: the expression raises \<open>TypeError\<close> and returns no element.
\<close>

theorem C6_add_counterexample:
  "FieldElement_init 7 13 = Inr \<lparr>num = 7, order = 13\<rparr>
   \<and> FieldElement_init 6 13 = Inr \<lparr>num = 6, order = 13\<rparr>
   \<and> binary_op Add \<lparr>num = 7, order = 13\<rparr> (PyInstance \<lparr>num = 6, order = 13\<rparr>)
       = Inl (TypeError ''__add__'')
   \<and> binary_op Add \<lparr>num = 7, order = 13\<rparr> (PyInstance \<lparr>num = 6, order = 13\<rparr>)
       \<noteq> Inr (PyInstance \<lparr>num = 0, order = 13\<rparr>)"
  by (simp add: init_ok binary_op_arith)

text \<open>
  Claim C6, amended. The class defines no addition: for every field element \<open>a\<close> and every
  right operand, of equal order, of different order or of another type, \<open>a + other\<close>
  raises \<open>TypeError\<close> and returns no element.
\<close>

theorem C6_add_undefined:
  "binary_op Add a other = Inl (TypeError ''__add__'')"
  by (simp add: binary_op_arith)

text \<open>
  Claim C7 says that a negative exponent is reduced modulo \<open>order - 1\<close> and that
  \<open>a * a ** -1\<close> is the element with value 1. The class has neither \<open>__pow__\<close> nor
  \<open>__mul__\<close>: for \<open>a = FieldElement(7, 13)\<close> the power \<open>a ** -1\<close> raises \<open>TypeError\<close>, and
  the product is never formed.
\<close>

theorem C7_inverse_counterexample:
  "FieldElement_init 7 13 = Inr \<lparr>num = 7, order = 13\<rparr>
   \<and> binary_op Pow \<lparr>num = 7, order = 13\<rparr> (PyInt (- 1)) = Inl (TypeError ''__pow__'')
   \<and> (case binary_op Pow \<lparr>num = 7, order = 13\<rparr> (PyInt (- 1)) of
         Inl err \<Rightarrow> Inl err
       | Inr x \<Rightarrow> binary_op Mul \<lparr>num = 7, order = 13\<rparr> x)
       \<noteq> Inr (PyInstance \<lparr>num = 1, order = 13\<rparr>)"
  by (simp add: init_ok binary_op_arith)

text \<open>
  Claim C7, amended. The class defines no exponentiation and no multiplication: for every
  field element \<open>a\<close> and every right operand, \<open>a ** other\<close> and \<open>a * other\<close> raise
  \<open>TypeError\<close>; no exponent is reduced and no inverse is computed.
\<close>

theorem C7_pow_mul_undefined:
  "binary_op Pow a other = Inl (TypeError ''__pow__'')
   \<and> binary_op Mul a other = Inl (TypeError ''__mul__'')"
  by (simp add: binary_op_arith)

section \<open>Equality is an equivalence; the textual form\<close>

text \<open>
  Claim C8. On field elements equality is reflexive, symmetric and transitive.
\<close>

theorem C8_equality_equivalence:
  "FieldElement_eq a (PyInstance a) = Inr True
   \<and> (FieldElement_eq a (PyInstance b) = Inr True \<longrightarrow> FieldElement_eq b (PyInstance a) = Inr True)
   \<and> (FieldElement_eq a (PyInstance b) = Inr True \<and> FieldElement_eq b (PyInstance c) = Inr True
        \<longrightarrow> FieldElement_eq a (PyInstance c) = Inr True)"
  by (simp add: eq_instance)

text \<open>The three properties at \<open>FieldElement(7, 13)\<close>.\<close>

theorem C8_equality_equivalence_witness:
  "FieldElement_eq \<lparr>num = 7, order = 13\<rparr> (PyInstance \<lparr>num = 7, order = 13\<rparr>) = Inr True
   \<and> (FieldElement_eq \<lparr>num = 7, order = 13\<rparr> (PyInstance \<lparr>num = 7, order = 13\<rparr>) = Inr True
      \<and> FieldElement_eq \<lparr>num = 7, order = 13\<rparr> (PyInstance \<lparr>num = 7, order = 13\<rparr>) = Inr True)"
  using C8_equality_equivalence
    [of "\<lparr>num = 7, order = 13\<rparr>" "\<lparr>num = 7, order = 13\<rparr>" "\<lparr>num = 7, order = 13\<rparr>"]
  by simp

text \<open>
  Claim C9. The textual representation of an element with value \<open>v\<close> and order \<open>o\<close> is
  \<open>FieldElement_\<close>, then \<open>o\<close>, then \<open>(\<close>, then \<open>v\<close>, then \<open>)\<close>, where \<open>o\<close> and \<open>v\<close> are written
  as decimal numerals: reading either numeral back gives the number.
\<close>

theorem C9_repr_text:
  "FieldElement_repr e =
     Inr (''FieldElement_'' @ str_int (order e) @ ''('' @ str_int (num e) @ '')'')
   \<and> int_of_decimal (str_int (order e)) = order e
   \<and> int_of_decimal (str_int (num e)) = num e"
  by (simp add: repr_value int_of_decimal_str_int)

text \<open>\<open>repr(FieldElement(7, 13))\<close> is \<open>FieldElement_13(7)\<close>.\<close>

theorem C9_repr_text_witness:
  "FieldElement_repr \<lparr>num = 7, order = 13\<rparr> = Inr ''FieldElement_13(7)''"
proof -
  have a: "str_int 13 = ''13''" "str_int 7 = ''7''"
    by code_simp+
  show ?thesis
    using C9_repr_text [of "\<lparr>num = 7, order = 13\<rparr>"] by (simp add: a)
qed

text \<open>
  Claim C10. For an order \<open>p \<le> 0\<close> the constructor rejects every value \<open>n\<close> (a value
  \<open>n \<ge> 0\<close> already has \<open>n \<ge> p\<close>), so every instance that exists has a positive order.
\<close>

theorem C10_nonpositive_order_rejected:
  "(p \<le> 0 \<longrightarrow> (\<exists>msg. FieldElement_init n p = Inl (ValueError msg)))
   \<and> (exists_instance e \<longrightarrow> 0 < order e)"
proof (intro conjI impI)
  assume "p \<le> 0"
  then have "n \<ge> p \<or> n < 0" by arith
  then show "\<exists>msg. FieldElement_init n p = Inl (ValueError msg)"
    by (simp add: init_error)
next
  assume "exists_instance e"
  then have "0 \<le> num e \<and> num e < order e" by (rule exists_instance_range)
  then show "0 < order e" by arith
qed

text \<open>Orders 0 and -5 are rejected; the instance \<open>FieldElement(0, 1)\<close> has a positive order.\<close>

theorem C10_nonpositive_order_rejected_witness:
  "(0::int) \<le> 0 \<and> (\<exists>msg. FieldElement_init 0 0 = Inl (ValueError msg))
   \<and> (- 5::int) \<le> 0 \<and> (\<exists>msg. FieldElement_init (- 7) (- 5) = Inl (ValueError msg))
   \<and> exists_instance \<lparr>num = 0, order = 1\<rparr> \<and> 0 < order \<lparr>num = 0, order = 1\<rparr>"
proof -
  have ex: "exists_instance \<lparr>num = 0, order = 1\<rparr>"
    by (rule exists_instance_constructed) simp_all
  show ?thesis
    using C10_nonpositive_order_rejected [of 0 0 "\<lparr>num = 0, order = 1\<rparr>"]
      C10_nonpositive_order_rejected [of "- 5" "- 7" "\<lparr>num = 0, order = 1\<rparr>"] ex
    by simp
qed

end
